theory Spec2Isabelle
  imports Complex_Main "HOL-Library.Monad_Syntax"
begin

section \<open>Arrays and matrices of the notebook\<close>

text \<open>
  The notebook \<^verbatim>\<open>003-fMRI_preprocessing.ipynb\<close> computes with numpy arrays of
  double-precision numbers. The numbers are modelled as \<^typ>\<open>real\<close>: rounding, infinities
  and NaN are outside the model, so every statement below is about the exact arithmetic
  the code denotes. An array is a nested list in row-major order, as numpy prints it; a
  numpy operation that raises (mismatched shapes, an index out of range, a reduction of
  an empty array) returns \<^term>\<open>None\<close>.
\<close>

type_synonym matrix = "real list list"

definition nrows :: "matrix \<Rightarrow> nat" where
  "nrows A = length A"

definition ncols :: "matrix \<Rightarrow> nat" where
  "ncols A = (case A of [] \<Rightarrow> 0 | r # _ \<Rightarrow> length r)"

text \<open>\<open>is_mat m n A\<close>: the nested list \<open>A\<close> is a rectangular \<open>m\<close> by \<open>n\<close> array.\<close>

definition is_mat :: "nat \<Rightarrow> nat \<Rightarrow> matrix \<Rightarrow> bool" where
  "is_mat m n A = (length A = m \<and> list_all (\<lambda>r. length r = n) A)"

definition same_shape :: "matrix \<Rightarrow> matrix \<Rightarrow> bool" where
  "same_shape A B = (map length A = map length B)"

text \<open>\<open>A.T\<close>: column \<open>j\<close> of \<open>A\<close> becomes row \<open>j\<close>.\<close>

definition mat_T :: "matrix \<Rightarrow> matrix" where
  "mat_T A = map (\<lambda>j. map (\<lambda>r. r ! j) A) [0..<ncols A]"

definition dot :: "real list \<Rightarrow> real list \<Rightarrow> real" where
  "dot u v = sum_list (map2 (*) u v)"

text \<open>
  \<open>A * B\<close> on \<open>np.matrix\<close> is the matrix product; numpy raises \<open>ValueError\<close> unless the
  number of columns of \<open>A\<close> is the number of rows of \<open>B\<close>.
\<close>

definition mat_mul :: "matrix \<Rightarrow> matrix \<Rightarrow> matrix option" where
  "mat_mul A B =
     (if ncols A = nrows B then Some (map (\<lambda>r. map (\<lambda>c. dot r c) (mat_T B)) A)
      else None)"

text \<open>
  \<open>A - B\<close> and \<open>A + B\<close> are element-wise. Every difference and sum the notebook takes is
  of two arrays of one shape; operands of different shapes (which numpy would broadcast
  or reject) are reported as a failure.
\<close>

definition mat_sub :: "matrix \<Rightarrow> matrix \<Rightarrow> matrix option" where
  "mat_sub A B =
     (if same_shape A B then Some (map2 (\<lambda>r s. map2 (-) r s) A B) else None)"

definition mat_add :: "matrix \<Rightarrow> matrix \<Rightarrow> matrix option" where
  "mat_add A B =
     (if same_shape A B then Some (map2 (\<lambda>r s. map2 (+) r s) A B) else None)"

text \<open>\<open>M[0:3,0:3]\<close>: slices clip to the array, they never raise.\<close>

definition upper3x3 :: "matrix \<Rightarrow> matrix" where
  "upper3x3 M = map (take 3) (take 3 M)"

text \<open>
  \<open>M[0:3,3]\<close> on \<open>np.matrix\<close> stays two-dimensional: a column of at most three rows.
  The integer index 3 raises \<open>IndexError\<close> when \<open>M\<close> has no fourth column.
\<close>

definition column3 :: "matrix \<Rightarrow> matrix option" where
  "column3 M = (if 3 < ncols M then Some (map (\<lambda>r. [r ! 3]) (take 3 M)) else None)"

text \<open>\<open>np.trace\<close>: the sum of the main diagonal, as far as it reaches.\<close>

definition trace :: "matrix \<Rightarrow> real" where
  "trace M = sum_list (map (\<lambda>i. M ! i ! i) [0..<min (nrows M) (ncols M)])"

text \<open>A scalar added to a matrix is added to every entry; \<open>np.sqrt\<close> is element-wise.\<close>

definition scalar_add :: "real \<Rightarrow> matrix \<Rightarrow> matrix" where
  "scalar_add s M = map (map (\<lambda>x. s + x)) M"

definition mat_sqrt :: "matrix \<Rightarrow> matrix" where
  "mat_sqrt M = map (map sqrt) M"

text \<open>
  Storing a matrix into one cell of a float array takes its single entry; anything but
  a one-by-one matrix raises \<open>ValueError\<close>.
\<close>

fun item :: "matrix \<Rightarrow> real option" where
  "item [[v]] = Some v"
| "item _ = None"

section \<open>Mean displacement\<close>

text \<open>
  The body of the loop over the transforms, which is the same in the cell for one
  subject and in the cell for all subjects:
  \<^verbatim>\<open>
    this_mc_affine = ref_affine * t.as_affine()
    T_error = ref_affine - this_mc_affine
    A = T_error[0:3,0:3]
    t = T_error[0:3,3]
    xc = np.matrix((0,0,0)).T
    mean_displacement[index] = np.sqrt( R**2. / 5 * np.trace(A.T * A) + (t + A*xc).T * (t + A*xc) )
  \<close>
  The radius \<open>R\<close> and the centre \<open>xc\<close> are variables of the notebook and parameters here;
  \<open>T\<close> is the value of \<open>t.as_affine()\<close>.
\<close>

definition frame_displacement :: "real \<Rightarrow> matrix \<Rightarrow> matrix \<Rightarrow> matrix \<Rightarrow> real option" where
  "frame_displacement R xc ref_affine T = do {
     this_mc_affine \<leftarrow> mat_mul ref_affine T;
     T_error \<leftarrow> mat_sub ref_affine this_mc_affine;
     let A = upper3x3 T_error;
     t \<leftarrow> column3 T_error;
     AtA \<leftarrow> mat_mul (mat_T A) A;
     Axc \<leftarrow> mat_mul A xc;
     v \<leftarrow> mat_add t Axc;
     vtv \<leftarrow> mat_mul (mat_T v) v;
     item (mat_sqrt (scalar_add (R\<^sup>2 / 5 * trace AtA) vtv))
   }"

text \<open>\<open>R = 70.\<close> and \<open>xc = np.matrix((0,0,0)).T\<close>, a column of three zeros.\<close>

definition R_default :: real where
  "R_default = 70"

definition xc_default :: matrix where
  "xc_default = mat_T [[0, 0, 0]]"

text \<open>
  The loop of the single-subject cell. \<open>mean_displacement\<close> starts as
  \<open>np.zeros((num_timepoints))\<close> and the loop stores one value per transform of
  \<open>transforms[0:num_timepoints]\<close>, at the index \<open>enumerate\<close> counts; an exception
  in the body ends the cell.
\<close>

fun md_loop :: "matrix \<Rightarrow> nat \<Rightarrow> matrix list \<Rightarrow> real list \<Rightarrow> real list option" where
  "md_loop ref_affine index [] mean_displacement = Some mean_displacement"
| "md_loop ref_affine index (T # ts) mean_displacement =
     (case frame_displacement R_default xc_default ref_affine T of
        None \<Rightarrow> None
      | Some d \<Rightarrow> md_loop ref_affine (Suc index) ts (mean_displacement[index := d]))"

definition mean_displacement :: "matrix \<Rightarrow> matrix list \<Rightarrow> nat \<Rightarrow> real list option" where
  "mean_displacement ref_affine transforms num_timepoints =
     md_loop ref_affine 0 (take num_timepoints transforms) (replicate num_timepoints 0)"

text \<open>
  The cell for all subjects runs the same loop for each subject, with that subject's
  reference affine and transforms, into row \<open>sub_index\<close> of
  \<open>np.zeros((num_subjects, num_timepoints))\<close>. A subject is given here by the pair of its
  reference affine and its list of transforms.
\<close>

fun mean_displacement_all :: "(matrix \<times> matrix list) list \<Rightarrow> nat \<Rightarrow> matrix option" where
  "mean_displacement_all [] num_timepoints = Some []"
| "mean_displacement_all ((ref_affine, transforms) # subs) num_timepoints =
     (case mean_displacement ref_affine transforms num_timepoints of
        None \<Rightarrow> None
      | Some row \<Rightarrow>
          (case mean_displacement_all subs num_timepoints of
             None \<Rightarrow> None
           | Some rows \<Rightarrow> Some (row # rows)))"

subsection \<open>The formula of the specification\<close>

text \<open>
  The specification's formula, entry by entry. \<open>E_entry\<close> is the entry \<open>(i, j)\<close> of
  \<open>E = R_ref - R_ref \<cdot> T\<close>; \<open>rot_term\<close> is \<open>trace(A\<^sup>T\<cdot>A)\<close> for the top-left three by three block
  \<open>A\<close> of \<open>E\<close>; \<open>trans_term\<close> is \<open>(t + A\<cdot>xc)\<^sup>T\<cdot>(t + A\<cdot>xc)\<close> for the top-right column \<open>t\<close>
  of \<open>E\<close>.
\<close>

definition E_entry :: "matrix \<Rightarrow> matrix \<Rightarrow> nat \<Rightarrow> nat \<Rightarrow> real" where
  "E_entry R_ref T i j = R_ref ! i ! j - (\<Sum>k<4. R_ref ! i ! k * T ! k ! j)"

definition rot_term :: "matrix \<Rightarrow> matrix \<Rightarrow> real" where
  "rot_term R_ref T = (\<Sum>j<3. \<Sum>i<3. (E_entry R_ref T i j)\<^sup>2)"

definition trans_term :: "matrix \<Rightarrow> matrix \<Rightarrow> matrix \<Rightarrow> real" where
  "trans_term xc R_ref T =
     (\<Sum>i<3. (E_entry R_ref T i 3 + (\<Sum>j<3. E_entry R_ref T i j * xc ! j ! 0))\<^sup>2)"

definition spec_displacement :: "real \<Rightarrow> matrix \<Rightarrow> matrix \<Rightarrow> matrix \<Rightarrow> real" where
  "spec_displacement r xc R_ref T =
     sqrt (r\<^sup>2 / 5 * rot_term R_ref T + trans_term xc R_ref T)"

subsection \<open>Transforms the claims speak of\<close>

text \<open>
  Values of \<open>t.as_affine()\<close>: no motion, a translation by \<open>d\<close> without rotation, and a
  linear map \<open>Q\<close> (a rotation, in the claims) about the centre \<open>xc\<close>, which is
  \<open>x \<mapsto> Q\<cdot>(x - xc) + xc\<close>, so that its translation column is \<open>xc - Q\<cdot>xc\<close>.
\<close>

definition identity4 :: matrix where
  "identity4 = [[1, 0, 0, 0], [0, 1, 0, 0], [0, 0, 1, 0], [0, 0, 0, 1]]"

definition translation_affine :: "real list \<Rightarrow> matrix" where
  "translation_affine d =
     [[1, 0, 0, d ! 0], [0, 1, 0, d ! 1], [0, 0, 1, d ! 2], [0, 0, 0, 1]]"

definition rotation_about :: "matrix \<Rightarrow> matrix \<Rightarrow> matrix" where
  "rotation_about Q xc =
     map (\<lambda>i. Q ! i @ [xc ! i ! 0 - (\<Sum>j<3. Q ! i ! j * xc ! j ! 0)]) [0..<3]
     @ [[0, 0, 0, 1]]"

text \<open>
  What the library hands to the all-subjects cell for one subject: a four by four
  reference affine and a list of four by four transforms.
\<close>

definition good_subject :: "matrix \<times> matrix list \<Rightarrow> bool" where
  "good_subject s = (is_mat 4 4 (fst s) \<and> list_all (is_mat 4 4) (snd s))"

section \<open>Cross-subject aggregation\<close>

text \<open>
  \<^verbatim>\<open>
    md_diff = np.diff(mean_displacement_all)
    max_disp = 2.5
    md_diff_rms = np.sqrt(np.sum(md_diff**2, axis=1))
    bad_sub_inds = np.nonzero(md_diff_rms >= max_disp)[0]
  \<close>
  \<open>np.diff\<close> works along the last axis, as \<open>a[1:] - a[:-1]\<close> on every row.
\<close>

definition diff_row :: "real list \<Rightarrow> real list" where
  "diff_row a = map2 (-) (drop 1 a) (butlast a)"

definition np_diff :: "matrix \<Rightarrow> matrix" where
  "np_diff M = map diff_row M"

definition square2 :: "matrix \<Rightarrow> matrix" where
  "square2 M = map (map (\<lambda>x. x\<^sup>2)) M"

definition sum_axis1 :: "matrix \<Rightarrow> real list" where
  "sum_axis1 M = map sum_list M"

definition md_diff_rms :: "matrix \<Rightarrow> real list" where
  "md_diff_rms md_diff = map sqrt (sum_axis1 (square2 md_diff))"

definition max_disp :: real where
  "max_disp = 2.5"

text \<open>\<open>np.nonzero(v >= c)[0]\<close>: the indices where the comparison holds, ascending.\<close>

definition nonzero_ge :: "real list \<Rightarrow> real \<Rightarrow> nat list" where
  "nonzero_ge v c = filter (\<lambda>i. v ! i \<ge> c) [0..<length v]"

definition bad_sub_inds :: "matrix \<Rightarrow> nat list" where
  "bad_sub_inds md_all = nonzero_ge (md_diff_rms (np_diff md_all)) max_disp"

section \<open>RMS error over time\<close>

text \<open>
  A four-dimensional volume is indexed \<open>arr ! x ! y ! z ! t\<close>. \<open>is_array4\<close> says that the
  nested list is a rectangular array of the given shape; \<open>shape4\<close> reads the shape off a
  nested list (the extent of an axis behind an empty one cannot be read and is 0).
\<close>

type_synonym array3 = "real list list list"
type_synonym array4 = "real list list list list"

definition is_array4 :: "nat \<Rightarrow> nat \<Rightarrow> nat \<Rightarrow> nat \<Rightarrow> array4 \<Rightarrow> bool" where
  "is_array4 nx ny nz nt arr =
     (length arr = nx \<and>
      list_all (\<lambda>plane. length plane = ny \<and>
        list_all (\<lambda>line. length line = nz \<and>
          list_all (\<lambda>ts. length ts = nt) line) plane) arr)"

fun len_hd :: "'a list list \<Rightarrow> nat" where
  "len_hd [] = 0"
| "len_hd (x # _) = length x"

definition shape4 :: "array4 \<Rightarrow> nat list" where
  "shape4 arr = [length arr, len_hd arr, len_hd (concat arr), len_hd (concat (concat arr))]"

text \<open>A volume of the data set: rectangular, with at least one voxel.\<close>

definition proper4 :: "array4 \<Rightarrow> bool" where
  "proper4 arr =
     (is_array4 (shape4 arr ! 0) (shape4 arr ! 1) (shape4 arr ! 2) (shape4 arr ! 3) arr
      \<and> 0 < shape4 arr ! 0 \<and> 0 < shape4 arr ! 1 \<and> 0 < shape4 arr ! 2)"

text \<open>
  The mean of a vector. numpy gives NaN for the mean of no numbers; the statements below
  are about arrays where that does not happen.
\<close>

definition avg :: "real list \<Rightarrow> real" where
  "avg xs = sum_list xs / real (length xs)"

text \<open>\<open>arr.mean(axis=3)\<close>: the mean over time of every voxel.\<close>

definition mean_axis3 :: "array4 \<Rightarrow> array3" where
  "mean_axis3 arr = map (map (map avg)) arr"

text \<open>
  The RMS curve of one volume, as the cell for all subjects computes it before cutting it
  to \<open>num_timepoints\<close> values:
  \<^verbatim>\<open>
    temporal_mean = bold_arr.mean(axis=3).reshape(bold_arr.shape[0:3] + (1,))
    squared_difference = (temporal_mean - bold_arr)**2
    rms_all[sub_index,:] = np.sqrt(squared_difference.mean(axis=0).mean(axis=0).mean(axis=0))[0:num_timepoints]
  \<close>
  The reshape wraps every mean in a list of its own; the subtraction broadcasts that one
  entry along the time axis. \<open>mean(axis=0)\<close> averages the entries of the outermost list
  position by position: it regroups them with \<^const>\<open>transpose\<close> and averages each group,
  which for a list of vectors is \<open>mean0_2\<close>, for a list of matrices \<open>mean0_3\<close> and for a
  list of volumes \<open>mean0_4\<close>.
\<close>

definition reshape_last :: "array3 \<Rightarrow> array4" where
  "reshape_last A = map (map (map (\<lambda>m. [m]))) A"

definition broadcast_sub :: "array4 \<Rightarrow> array4 \<Rightarrow> array4" where
  "broadcast_sub A B =
     map2 (map2 (map2 (\<lambda>ms ts. case ms of [m] \<Rightarrow> map (\<lambda>b. m - b) ts
                                | _ \<Rightarrow> map2 (-) ms ts))) A B"

definition square4 :: "array4 \<Rightarrow> array4" where
  "square4 A = map (map (map (map (\<lambda>x. x\<^sup>2)))) A"

definition mean0_2 :: "matrix \<Rightarrow> real list" where
  "mean0_2 X = map avg (transpose X)"

definition mean0_3 :: "array3 \<Rightarrow> matrix" where
  "mean0_3 X = map mean0_2 (transpose X)"

definition mean0_4 :: "array4 \<Rightarrow> array3" where
  "mean0_4 X = map mean0_3 (transpose X)"

definition rms_vec :: "array4 \<Rightarrow> real list" where
  "rms_vec arr =
     (let temporal_mean = reshape_last (mean_axis3 arr);
          squared_difference = square4 (broadcast_sub temporal_mean arr)
      in map sqrt (mean0_2 (mean0_3 (mean0_4 squared_difference))))"

text \<open>
  The entry \<open>t\<close> of the curve written with sums over the voxels: the square root of the
  mean, over all voxels, of the squared difference between the temporal mean and the
  frame \<open>t\<close>.
\<close>

definition rms_formula :: "nat \<Rightarrow> nat \<Rightarrow> nat \<Rightarrow> array4 \<Rightarrow> nat \<Rightarrow> real" where
  "rms_formula nx ny nz arr t =
     sqrt ((\<Sum>x<nx. \<Sum>y<ny. \<Sum>z<nz. (avg (arr ! x ! y ! z) - arr ! x ! y ! z ! t)\<^sup>2)
           / real (nx * ny * nz))"

section \<open>The common number of frames\<close>

text \<open>
  \<^verbatim>\<open>
    dims_all = np.zeros((num_subjects, 4))
    for sub_index,sub_dir in enumerate(all_subs):
        dims_all[sub_index,:] = nib.load(bold_fname).get_shape()
    num_timepoints = int(dims_all.min(axis=0)[3])
  \<close>
  \<open>min(axis=0)\<close> is the minimum of every column; with no subject at all numpy raises
  \<open>ValueError\<close>, and the index 3 needs a fourth column.
\<close>

definition dims_all :: "array4 list \<Rightarrow> nat list list" where
  "dims_all arrs = map shape4 arrs"

definition min_axis0 :: "nat list list \<Rightarrow> nat list option" where
  "min_axis0 D = (if D = [] then None else Some (map (\<lambda>c. Min (set c)) (transpose D)))"

definition num_timepoints :: "nat list list \<Rightarrow> nat option" where
  "num_timepoints D = do {
     m \<leftarrow> min_axis0 D;
     if 3 < length m then Some (m ! 3) else None
   }"

text \<open>
  \<^verbatim>\<open>
    rms_all = np.zeros((num_subjects, num_timepoints))
    for sub_index,sub_dir in enumerate(all_subs):
        ...
        rms_all[sub_index,:] = np.sqrt(...)[0:num_timepoints]
  \<close>
  A slice never raises; storing it into a row of \<open>num_timepoints\<close> cells needs that many
  values, or a single one, which numpy repeats; anything else raises \<open>ValueError\<close>.
\<close>

definition store_row :: "nat \<Rightarrow> real list \<Rightarrow> real list option" where
  "store_row n vals =
     (if length vals = n then Some vals
      else if length vals = 1 then Some (replicate n (vals ! 0))
      else None)"

fun rms_all_loop :: "nat \<Rightarrow> array4 list \<Rightarrow> matrix option" where
  "rms_all_loop n [] = Some []"
| "rms_all_loop n (bold_arr # arrs) =
     (case store_row n (take n (rms_vec bold_arr)) of
        None \<Rightarrow> None
      | Some row \<Rightarrow>
          (case rms_all_loop n arrs of
             None \<Rightarrow> None
           | Some rows \<Rightarrow> Some (row # rows)))"

definition rms_all :: "array4 list \<Rightarrow> matrix option" where
  "rms_all arrs = do {
     n \<leftarrow> num_timepoints (dims_all arrs);
     rms_all_loop n arrs
   }"

section \<open>The worst subject\<close>

text \<open>
  \<^verbatim>\<open>
    mean_rms_all = rms_all.mean(axis=1)
    worst_subject = np.nonzero(mean_rms_all==mean_rms_all.max())[0][0]
  \<close>
  \<open>max()\<close> of an empty array raises \<open>ValueError\<close>; the last \<open>[0]\<close> raises \<open>IndexError\<close>
  when no entry equals the maximum.
\<close>

definition mean_axis1 :: "matrix \<Rightarrow> real list" where
  "mean_axis1 M = map avg M"

definition array_max :: "real list \<Rightarrow> real option" where
  "array_max v = (if v = [] then None else Some (Max (set v)))"

definition nonzero_eq :: "real list \<Rightarrow> real \<Rightarrow> nat list" where
  "nonzero_eq v c = filter (\<lambda>i. v ! i = c) [0..<length v]"

definition worst_subject :: "matrix \<Rightarrow> nat option" where
  "worst_subject rms_all_arr = do {
     let mean_rms_all = mean_axis1 rms_all_arr;
     m \<leftarrow> array_max mean_rms_all;
     (case nonzero_eq mean_rms_all m of [] \<Rightarrow> None | i # _ \<Rightarrow> Some i)
   }"

section \<open>Shapes\<close>

lemma list4: "length xs = 4 \<Longrightarrow> \<exists>a b c d. xs = [a, b, c, d]"
  by (auto simp: length_Suc_conv eval_nat_numeral)

lemma list3: "length xs = 3 \<Longrightarrow> \<exists>a b c. xs = [a, b, c]"
  by (auto simp: length_Suc_conv eval_nat_numeral)

lemma list1: "length xs = Suc 0 \<Longrightarrow> \<exists>a. xs = [a]"
  by (auto simp: length_Suc_conv)

lemma is_mat_4_4:
  assumes "is_mat 4 4 A"
  obtains a0 a1 a2 a3 b0 b1 b2 b3 c0 c1 c2 c3 d0 d1 d2 d3 where
    "A = [[a0, a1, a2, a3], [b0, b1, b2, b3], [c0, c1, c2, c3], [d0, d1, d2, d3]]"
proof -
  from assms have "length A = 4" and rows: "list_all (\<lambda>r. length r = 4) A"
    by (simp_all add: is_mat_def)
  then obtain r0 r1 r2 r3 where A: "A = [r0, r1, r2, r3]"
    using list4 by blast
  from rows A have "length r0 = 4" "length r1 = 4" "length r2 = 4" "length r3 = 4"
    by simp_all
  then show thesis
    using that A by (metis list4)
qed

lemma is_mat_3_3:
  assumes "is_mat 3 3 A"
  obtains a0 a1 a2 b0 b1 b2 c0 c1 c2 where
    "A = [[a0, a1, a2], [b0, b1, b2], [c0, c1, c2]]"
proof -
  from assms have "length A = 3" and rows: "list_all (\<lambda>r. length r = 3) A"
    by (simp_all add: is_mat_def)
  then obtain r0 r1 r2 where A: "A = [r0, r1, r2]"
    using list3 by blast
  from rows A have "length r0 = 3" "length r1 = 3" "length r2 = 3"
    by simp_all
  then show thesis
    using that A by (metis list3)
qed

lemma is_mat_3_1:
  assumes "is_mat 3 1 A"
  obtains x y z where "A = [[x], [y], [z]]"
proof -
  from assms have "length A = 3" and rows: "list_all (\<lambda>r. length r = Suc 0) A"
    by (simp_all add: is_mat_def)
  then obtain r0 r1 r2 where A: "A = [r0, r1, r2]"
    using list3 by blast
  from rows A have "length r0 = Suc 0" "length r1 = Suc 0" "length r2 = Suc 0"
    by simp_all
  then show thesis
    using that A by (metis list1)
qed

lemma upt_small: "[0..<4] = [0, 1, 2, 3]" "[0..<3] = [0, 1, 2]" "[0..<Suc 0] = [0]"
  by (simp_all add: upt_rec)

lemma sum_lt4: "(\<Sum>k<(4::nat). f k) = f 0 + f 1 + f 2 + (f 3 :: real)"
  by (simp add: eval_nat_numeral lessThan_Suc)

lemma sum_lt3: "(\<Sum>k<(3::nat). f k) = f 0 + f 1 + (f 2 :: real)"
  by (simp add: eval_nat_numeral lessThan_Suc)

lemmas mat_defs =
  mat_mul_def mat_sub_def mat_add_def mat_T_def ncols_def nrows_def same_shape_def
  upper3x3_def column3_def trace_def scalar_add_def mat_sqrt_def dot_def upt_small

section \<open>The loop body computes the formula\<close>

lemma frame_displacement_eq:
  assumes "is_mat 4 4 ref_affine" and "is_mat 4 4 T" and "is_mat 3 1 xc"
  shows "frame_displacement R xc ref_affine T = Some (spec_displacement R xc ref_affine T)"
proof -
  from assms(1) obtain a0 a1 a2 a3 b0 b1 b2 b3 c0 c1 c2 c3 d0 d1 d2 d3 where
    A: "ref_affine = [[a0, a1, a2, a3], [b0, b1, b2, b3], [c0, c1, c2, c3], [d0, d1, d2, d3]]"
    by (rule is_mat_4_4)
  from assms(2) obtain p0 p1 p2 p3 q0 q1 q2 q3 r0 r1 r2 r3 s0 s1 s2 s3 where
    T: "T = [[p0, p1, p2, p3], [q0, q1, q2, q3], [r0, r1, r2, r3], [s0, s1, s2, s3]]"
    by (rule is_mat_4_4)
  from assms(3) obtain x y z where X: "xc = [[x], [y], [z]]"
    by (rule is_mat_3_1)
  show ?thesis
    unfolding A T X
    by (simp add: frame_displacement_def spec_displacement_def mat_defs sum_lt4 sum_lt3
        rot_term_def trans_term_def E_entry_def power2_eq_square add_ac)
qed

lemma is_mat_xc_default: "is_mat 3 1 xc_default"
  by (simp add: xc_default_def is_mat_def mat_defs)

lemma is_mat_identity4: "is_mat 4 4 identity4"
  by (simp add: identity4_def is_mat_def)

lemma is_mat_translation: "is_mat 4 4 (translation_affine d)"
  by (simp add: translation_affine_def is_mat_def)

lemma is_mat_rotation_about: "is_mat 3 3 Q \<Longrightarrow> is_mat 4 4 (rotation_about Q xc)"
  by (erule is_mat_3_3) (simp add: rotation_about_def is_mat_def upt_small)

lemma rot_term_nonneg: "0 \<le> rot_term R T"
  by (simp add: rot_term_def sum_nonneg)

lemma trans_term_nonneg: "0 \<le> trans_term xc R T"
  by (simp add: trans_term_def sum_nonneg)

section \<open>The loops fill the displacement table\<close>

lemma md_loop_eq:
  assumes "is_mat 4 4 ref_affine" and "list_all (is_mat 4 4) ts"
    and "index + length ts \<le> length acc"
  shows "md_loop ref_affine index ts acc =
    Some (take index acc @ map (spec_displacement R_default xc_default ref_affine) ts
          @ drop (index + length ts) acc)"
  using assms(2,3)
proof (induction ts arbitrary: index acc)
  case Nil
  then show ?case by simp
next
  case (Cons T ts)
  have fd: "frame_displacement R_default xc_default ref_affine T
    = Some (spec_displacement R_default xc_default ref_affine T)"
    using Cons.prems(1) by (intro frame_displacement_eq assms(1) is_mat_xc_default) simp
  have "index < length acc" using Cons.prems(2) by simp
  then have tk: "take (Suc index) (acc[index := d]) = take index acc @ [d]" for d
    by (simp add: take_Suc_conv_app_nth)
  show ?case
    using Cons.prems
      Cons.IH[of "Suc index" "acc[index := spec_displacement R_default xc_default ref_affine T]"]
    by (simp add: fd tk)
qed

lemma mean_displacement_eq:
  assumes "is_mat 4 4 ref_affine" and "list_all (is_mat 4 4) transforms"
  shows "mean_displacement ref_affine transforms n =
    Some (map (spec_displacement R_default xc_default ref_affine) (take n transforms)
          @ replicate (n - length transforms) 0)"
proof -
  have "list_all (is_mat 4 4) (take n transforms)"
    using assms(2) by (auto simp: list_all_iff dest: in_set_takeD)
  then show ?thesis
    unfolding mean_displacement_def
    by (subst md_loop_eq[OF assms(1)]) (simp_all add: min_def)
qed

lemma mean_displacement_all_eq:
  assumes "list_all good_subject subs"
  shows "mean_displacement_all subs n =
    Some (map (\<lambda>s. the (mean_displacement (fst s) (snd s) n)) subs)"
  using assms
proof (induction subs)
  case Nil
  then show ?case by simp
next
  case (Cons s subs)
  obtain r ts where s: "s = (r, ts)" by (cases s)
  show ?case using Cons by (simp add: s good_subject_def mean_displacement_eq)
qed

text \<open>
  Claim C1. For every frame \<open>i\<close> that the loop visits (\<open>i\<close> below \<open>num_timepoints\<close> and
  below the number of transforms of the subject), the value stored at index \<open>i\<close> of the
  subject's row, by the single-subject cell and by the all-subjects cell alike, is
  \<open>sqrt((r\<^sup>2/5) \<cdot> trace(A\<^sup>T\<cdot>A) + (t + A\<cdot>xc)\<^sup>T\<cdot>(t + A\<cdot>xc))\<close> with \<open>r = 70\<close> and
  \<open>xc = (0,0,0)\<close>, where \<open>A\<close> and \<open>t\<close> are the top-left three by three block and the
  top-right column of \<open>E = R_ref - R_ref\<cdot>T_i\<close>.
\<close>

theorem displacement_is_spec_formula:
  assumes "list_all good_subject subs" and "s < length subs"
    and "i < n" and "i < length (snd (subs ! s))"
  shows "\<exists>M row. mean_displacement_all subs n = Some M
      \<and> mean_displacement (fst (subs ! s)) (snd (subs ! s)) n = Some row
      \<and> M ! s = row \<and> length row = n
      \<and> row ! i = spec_displacement 70 [[0], [0], [0]] (fst (subs ! s)) (snd (subs ! s) ! i)"
proof -
  have g: "good_subject (subs ! s)"
    using assms(1,2) by (simp add: list_all_length)
  have xc: "xc_default = [[0], [0], [0]]"
    by (simp add: xc_default_def mat_defs)
  show ?thesis
    using assms(2-4) g
    by (simp add: mean_displacement_all_eq[OF assms(1)] good_subject_def mean_displacement_eq
        nth_append R_default_def xc)
qed

theorem displacement_is_spec_formula_witness:
  "\<exists>M row. mean_displacement_all
        [([[3, 0, 0, 0], [0, 3, 0, 0], [0, 0, 3, 0], [0, 0, 0, 1]],
          [identity4, translation_affine [1, 0, 0], translation_affine [9, 9, 9]])] 2 = Some M
      \<and> mean_displacement [[3, 0, 0, 0], [0, 3, 0, 0], [0, 0, 3, 0], [0, 0, 0, 1]]
          [identity4, translation_affine [1, 0, 0], translation_affine [9, 9, 9]] 2 = Some row
      \<and> M ! 0 = row \<and> length row = 2 \<and> row ! 1 = 3"
  using displacement_is_spec_formula[of
      "[([[3, 0, 0, 0], [0, 3, 0, 0], [0, 0, 3, 0], [0, 0, 0, 1]],
         [identity4, translation_affine [1, 0, 0], translation_affine [9, 9, 9]])]" 0 1 2]
  by (simp add: good_subject_def is_mat_def identity4_def translation_affine_def
      spec_displacement_def rot_term_def trans_term_def E_entry_def sum_lt3 sum_lt4)

section \<open>No motion\<close>

lemma E_entry_identity4:
  assumes "i < 4" and "j < 4"
  shows "E_entry R identity4 i j = 0"
proof -
  from assms have "j = 0 \<or> j = 1 \<or> j = 2 \<or> j = 3" by auto
  then show ?thesis
    by (auto simp: E_entry_def identity4_def sum_lt4)
qed

text \<open>
  Claim C2. When the transform of a frame is the identity affine, the loop body returns
  exactly zero, for every four by four reference affine (invertible or not), every radius
  and every centre.
\<close>

theorem identity_transform_zero:
  assumes "is_mat 4 4 ref_affine" and "is_mat 3 1 xc"
  shows "frame_displacement r xc ref_affine identity4 = Some 0"
proof -
  have "rot_term ref_affine identity4 = 0"
    by (simp add: rot_term_def E_entry_identity4)
  moreover have "trans_term xc ref_affine identity4 = 0"
    by (simp add: trans_term_def E_entry_identity4)
  ultimately show ?thesis
    by (simp add: frame_displacement_eq[OF assms(1) is_mat_identity4 assms(2)]
        spec_displacement_def)
qed

theorem identity_transform_zero_witness:
  "frame_displacement 70 [[1], [2], [3]]
     [[3, 0, 0, -90], [0, 3, 0, -126], [0, 0, 3, -72], [0, 0, 0, 1]] identity4 = Some 0"
  using identity_transform_zero[of
      "[[3, 0, 0, -90], [0, 3, 0, -126], [0, 0, 3, -72], [0, 0, 0, 1]]" "[[1], [2], [3]]" 70]
  by (simp add: is_mat_def)

section \<open>The transform equal to the reference affine\<close>

lemma rot_term_zero_iff: "rot_term R T = 0 \<longleftrightarrow> (\<forall>i<3. \<forall>j<3. E_entry R T i j = 0)"
proof -
  have "rot_term R T = 0 \<longleftrightarrow> (\<forall>j\<in>{..<3}. (\<Sum>i<3. (E_entry R T i j)\<^sup>2) = 0)"
    unfolding rot_term_def by (rule sum_nonneg_eq_0_iff) (simp_all add: sum_nonneg)
  also have "\<dots> \<longleftrightarrow> (\<forall>j\<in>{..<3}. \<forall>i\<in>{..<3}. (E_entry R T i j)\<^sup>2 = 0)"
    by (intro ball_cong refl sum_nonneg_eq_0_iff) simp_all
  finally show ?thesis by auto
qed

lemma trans_term_zero_iff:
  "trans_term xc R T = 0 \<longleftrightarrow>
     (\<forall>i<3. E_entry R T i 3 + (\<Sum>j<3. E_entry R T i j * xc ! j ! 0) = 0)"
proof -
  have "trans_term xc R T = 0 \<longleftrightarrow>
      (\<forall>i\<in>{..<3}. (E_entry R T i 3 + (\<Sum>j<3. E_entry R T i j * xc ! j ! 0))\<^sup>2 = 0)"
    unfolding trans_term_def by (rule sum_nonneg_eq_0_iff) simp_all
  then show ?thesis by auto
qed

lemma spec_displacement_zero_iff:
  assumes "r \<noteq> 0"
  shows "spec_displacement r xc R T = 0 \<longleftrightarrow> (\<forall>i<3. \<forall>j<4. E_entry R T i j = 0)"
proof -
  have pos: "0 < r\<^sup>2 / 5" using assms by simp
  have "spec_displacement r xc R T = 0 \<longleftrightarrow> r\<^sup>2 / 5 * rot_term R T + trans_term xc R T = 0"
    by (simp add: spec_displacement_def)
  also have "\<dots> \<longleftrightarrow> r\<^sup>2 / 5 * rot_term R T = 0 \<and> trans_term xc R T = 0"
    using pos rot_term_nonneg[of R T] trans_term_nonneg[of xc R T]
    by (intro add_nonneg_eq_0_iff) simp_all
  also have "\<dots> \<longleftrightarrow> rot_term R T = 0 \<and> trans_term xc R T = 0"
    using assms by simp
  also have "\<dots> \<longleftrightarrow> (\<forall>i<3. \<forall>j<4. E_entry R T i j = 0)"
  proof
    assume h: "rot_term R T = 0 \<and> trans_term xc R T = 0"
    then have A: "\<forall>i<3. \<forall>j<3. E_entry R T i j = 0"
      by (simp add: rot_term_zero_iff)
    from h have "\<forall>i<3. E_entry R T i 3 + (\<Sum>j<3. E_entry R T i j * xc ! j ! 0) = 0"
      by (simp add: trans_term_zero_iff)
    with A have t: "\<forall>i<3. E_entry R T i 3 = 0" by simp
    show "\<forall>i<3. \<forall>j<4. E_entry R T i j = 0"
    proof (intro allI impI)
      fix i j :: nat assume "i < 3" and "j < 4"
      then have "j < 3 \<or> j = 3" by auto
      then show "E_entry R T i j = 0" using A t \<open>i < 3\<close> by auto
    qed
  next
    assume h: "\<forall>i<3. \<forall>j<4. E_entry R T i j = 0"
    then show "rot_term R T = 0 \<and> trans_term xc R T = 0"
      by (simp add: rot_term_zero_iff trans_term_zero_iff)
  qed
  finally show ?thesis .
qed

text \<open>
  Claim C3, as stated: with the transform of the frame equal to the reference affine
  itself the result is 0 for every invertible reference affine. It is not: the
  reference affine below is a translation by \<open>(3, 4, 0)\<close>, invertible (its inverse is the
  translation by \<open>(-3, -4, 0)\<close>), and the loop body returns 5.
\<close>

theorem reference_as_transform_counterexample:
  "mat_mul [[1, 0, 0, 3], [0, 1, 0, 4], [0, 0, 1, 0], [0, 0, 0, 1]]
           [[1, 0, 0, -3], [0, 1, 0, -4], [0, 0, 1, 0], [0, 0, 0, 1]] = Some identity4
   \<and> frame_displacement 70 [[0], [0], [0]]
        [[1, 0, 0, 3], [0, 1, 0, 4], [0, 0, 1, 0], [0, 0, 0, 1]]
        [[1, 0, 0, 3], [0, 1, 0, 4], [0, 0, 1, 0], [0, 0, 0, 1]] = Some 5"
  by (simp add: frame_displacement_def mat_defs identity4_def)

lemma lt4_cases: "i < (4::nat) \<Longrightarrow> i = 0 \<or> i = 1 \<or> i = 2 \<or> i = 3"
  by auto

lemma mat_mul_nth_4:
  assumes "is_mat 4 4 A" and "is_mat 4 4 B" and "mat_mul A B = Some C"
    and "i < 4" and "j < 4"
  shows "C ! i ! j = (\<Sum>k<4. A ! i ! k * B ! k ! j)"
proof -
  from assms(1) obtain a0 a1 a2 a3 b0 b1 b2 b3 c0 c1 c2 c3 d0 d1 d2 d3 where
    A: "A = [[a0, a1, a2, a3], [b0, b1, b2, b3], [c0, c1, c2, c3], [d0, d1, d2, d3]]"
    by (rule is_mat_4_4)
  from assms(2) obtain p0 p1 p2 p3 q0 q1 q2 q3 r0 r1 r2 r3 s0 s1 s2 s3 where
    B: "B = [[p0, p1, p2, p3], [q0, q1, q2, q3], [r0, r1, r2, r3], [s0, s1, s2, s3]]"
    by (rule is_mat_4_4)
  from assms(3) have C: "C = map (\<lambda>r. map (\<lambda>c. dot r c) (mat_T B)) A"
    by (simp add: mat_mul_def split: if_splits)
  show ?thesis
    using lt4_cases[OF assms(4)] lt4_cases[OF assms(5)]
    unfolding C A B
    by (elim disjE) (simp_all add: mat_defs sum_lt4)
qed

lemma identity4_nth:
  assumes "i < 4" and "j < 4"
  shows "identity4 ! i ! j = (if i = j then 1 else 0)"
  using lt4_cases[OF assms(1)] lt4_cases[OF assms(2)]
  by (elim disjE) (simp_all add: identity4_def)

lemma idempotent_invertible_is_identity:
  assumes R: "is_mat 4 4 R" and Ri: "is_mat 4 4 R_inv"
    and inv: "mat_mul R R_inv = Some identity4"
    and idem: "\<forall>i<4. \<forall>j<4. (\<Sum>k<4. R ! i ! k * R ! k ! j) = R ! i ! j"
  shows "R = identity4"
proof -
  have I: "(\<Sum>l<4. R ! i ! l * R_inv ! l ! j) = (if i = j then 1 else 0)"
    if "i < 4" "j < 4" for i j
    using mat_mul_nth_4[OF R Ri inv that] identity4_nth[OF that] by simp
  have entry: "R ! i ! j = (if i = j then 1 else 0)" if ij: "i < 4" "j < 4" for i j
  proof -
    have "R ! i ! j = (\<Sum>k<4. R ! i ! k * (if k = j then 1 else 0))"
      using lt4_cases[OF ij(2)] by (auto simp: sum_lt4)
    also have "\<dots> = (\<Sum>k<4. R ! i ! k * (\<Sum>l<4. R ! k ! l * R_inv ! l ! j))"
      by (intro sum.cong refl) (simp add: I ij)
    also have "\<dots> = (\<Sum>k<4. \<Sum>l<4. R ! i ! k * R ! k ! l * R_inv ! l ! j)"
      by (simp add: sum_distrib_left mult.assoc)
    also have "\<dots> = (\<Sum>l<4. \<Sum>k<4. R ! i ! k * R ! k ! l * R_inv ! l ! j)"
      by (rule sum.swap)
    also have "\<dots> = (\<Sum>l<4. (\<Sum>k<4. R ! i ! k * R ! k ! l) * R_inv ! l ! j)"
      by (simp add: sum_distrib_right)
    also have "\<dots> = (\<Sum>l<4. R ! i ! l * R_inv ! l ! j)"
      using idem ij by (intro sum.cong refl) simp
    also have "\<dots> = (if i = j then 1 else 0)"
      by (rule I[OF ij])
    finally show ?thesis .
  qed
  from R obtain a0 a1 a2 a3 b0 b1 b2 b3 c0 c1 c2 c3 d0 d1 d2 d3 where
    A: "R = [[a0, a1, a2, a3], [b0, b1, b2, b3], [c0, c1, c2, c3], [d0, d1, d2, d3]]"
    by (rule is_mat_4_4)
  have "a0 = 1" "a1 = 0" "a2 = 0" "a3 = 0" "b0 = 0" "b1 = 1" "b2 = 0" "b3 = 0"
    "c0 = 0" "c1 = 0" "c2 = 1" "c3 = 0" "d0 = 0" "d1 = 0" "d2 = 0" "d3 = 1"
    using entry[of 0 0] entry[of 0 1] entry[of 0 2] entry[of 0 3]
      entry[of 1 0] entry[of 1 1] entry[of 1 2] entry[of 1 3]
      entry[of 2 0] entry[of 2 1] entry[of 2 2] entry[of 2 3]
      entry[of 3 0] entry[of 3 1] entry[of 3 2] entry[of 3 3]
    by (simp_all add: A)
  then show ?thesis by (simp add: A identity4_def)
qed

lemma last_row_idempotent:
  assumes "is_mat 4 4 R" and "R ! 3 = [0, 0, 0, 1]" and "j < 4"
  shows "(\<Sum>k<4. R ! 3 ! k * R ! k ! j) = R ! 3 ! j"
  using assms(2) by (simp add: sum_lt4)

lemma identity4_idempotent:
  "\<forall>i<3. \<forall>j<4. (\<Sum>k<4. identity4 ! i ! k * identity4 ! k ! j) = identity4 ! i ! j"
  by (simp add: identity4_def sum_lt4 eval_nat_numeral All_less_Suc)

text \<open>
  Claim C3, amended. With the transform of the frame equal to the reference affine
  \<open>R_ref\<close>, and a radius other than zero, the loop body returns 0 exactly when the first
  three rows of \<open>R_ref \<cdot> R_ref\<close> are the first three rows of \<open>R_ref\<close>, whatever the centre.
  When \<open>R_ref\<close> is an invertible affine with last row \<open>(0, 0, 0, 1)\<close>, that is exactly when
  \<open>R_ref\<close> is the identity matrix.
\<close>

theorem reference_as_transform_zero_iff:
  assumes "is_mat 4 4 R_ref" and "is_mat 3 1 xc" and "r \<noteq> 0"
  shows "(frame_displacement r xc R_ref R_ref = Some 0
       \<longleftrightarrow> (\<forall>i<3. \<forall>j<4. (\<Sum>k<4. R_ref ! i ! k * R_ref ! k ! j) = R_ref ! i ! j))
     \<and> (R_ref ! 3 = [0, 0, 0, 1] \<and> is_mat 4 4 R_inv \<and> mat_mul R_ref R_inv = Some identity4
        \<longrightarrow> (frame_displacement r xc R_ref R_ref = Some 0 \<longleftrightarrow> R_ref = identity4))"
proof -
  have rows: "frame_displacement r xc R_ref R_ref = Some 0
       \<longleftrightarrow> (\<forall>i<3. \<forall>j<4. (\<Sum>k<4. R_ref ! i ! k * R_ref ! k ! j) = R_ref ! i ! j)"
    using spec_displacement_zero_iff[OF assms(3), of xc R_ref R_ref]
    by (auto simp add: frame_displacement_eq[OF assms(1) assms(1) assms(2)] E_entry_def)
  have "frame_displacement r xc R_ref R_ref = Some 0 \<longleftrightarrow> R_ref = identity4"
    if last: "R_ref ! 3 = [0, 0, 0, 1]" and Ri: "is_mat 4 4 R_inv"
      and inv: "mat_mul R_ref R_inv = Some identity4"
  proof
    assume "frame_displacement r xc R_ref R_ref = Some 0"
    with rows have top: "\<forall>i<3. \<forall>j<4. (\<Sum>k<4. R_ref ! i ! k * R_ref ! k ! j) = R_ref ! i ! j"
      by simp
    have "\<forall>i<4. \<forall>j<4. (\<Sum>k<4. R_ref ! i ! k * R_ref ! k ! j) = R_ref ! i ! j"
    proof (intro allI impI)
      fix i j :: nat assume "i < 4" and j: "j < 4"
      then have "i < 3 \<or> i = 3" by auto
      then show "(\<Sum>k<4. R_ref ! i ! k * R_ref ! k ! j) = R_ref ! i ! j"
        using top j last_row_idempotent[OF assms(1) last j] by auto
    qed
    with assms(1) Ri inv show "R_ref = identity4"
      by (rule idempotent_invertible_is_identity)
  next
    assume "R_ref = identity4"
    then show "frame_displacement r xc R_ref R_ref = Some 0"
      using rows identity4_idempotent by simp
  qed
  with rows show ?thesis by blast
qed

theorem reference_as_transform_zero_iff_witness:
  "frame_displacement 70 [[1], [2], [3]]
      [[1, 0, 0, 0], [0, 1, 0, 0], [0, 0, 1, 0], [0, 0, 0, 2]]
      [[1, 0, 0, 0], [0, 1, 0, 0], [0, 0, 1, 0], [0, 0, 0, 2]] = Some 0
   \<and> mat_mul [[1, 0, 0, 3], [0, 1, 0, 4], [0, 0, 1, 0], [0, 0, 0, 1]]
              [[1, 0, 0, -3], [0, 1, 0, -4], [0, 0, 1, 0], [0, 0, 0, 1]] = Some identity4
   \<and> frame_displacement 70 [[1], [2], [3]]
      [[1, 0, 0, 3], [0, 1, 0, 4], [0, 0, 1, 0], [0, 0, 0, 1]]
      [[1, 0, 0, 3], [0, 1, 0, 4], [0, 0, 1, 0], [0, 0, 0, 1]] \<noteq> Some 0"
proof -
  let ?D = "[[1, 0, 0, 0], [0, 1, 0, 0], [0, 0, 1, 0], [0, 0, 0, 2::real]]"
  let ?R = "[[1, 0, 0, 3], [0, 1, 0, 4], [0, 0, 1, 0], [0, 0, 0, 1::real]]"
  let ?Ri = "[[1, 0, 0, -3], [0, 1, 0, -4], [0, 0, 1, 0], [0, 0, 0, 1::real]]"
  have xc: "is_mat 3 1 [[1], [2], [3::real]]" by (simp add: is_mat_def)
  have r: "(70::real) \<noteq> 0" by simp
  have D: "is_mat 4 4 ?D" and R: "is_mat 4 4 ?R" and Ri: "is_mat 4 4 ?Ri"
    by (simp_all add: is_mat_def)
  have inv: "mat_mul ?R ?Ri = Some identity4"
    by (simp add: mat_defs identity4_def)
  have "frame_displacement 70 [[1], [2], [3]] ?D ?D = Some 0"
    using reference_as_transform_zero_iff[OF D xc r, of ?D, THEN conjunct1]
    by (simp add: sum_lt4 eval_nat_numeral All_less_Suc)
  moreover have "frame_displacement 70 [[1], [2], [3]] ?R ?R \<noteq> Some 0"
    using reference_as_transform_zero_iff[OF R xc r, of ?Ri, THEN conjunct2] Ri inv
    by (simp add: identity4_def)
  ultimately show ?thesis using inv by simp
qed

section \<open>Pure translation\<close>

lemma E_entry_translation_lin:
  assumes "j < 3"
  shows "E_entry R (translation_affine d) i j = 0"
proof -
  from assms have "j = 0 \<or> j = 1 \<or> j = 2" by auto
  then show ?thesis
    by (auto simp: E_entry_def translation_affine_def sum_lt4)
qed

lemma E_entry_translation_col:
  "E_entry R (translation_affine d) i 3 = - (\<Sum>j<3. R ! i ! j * d ! j)"
  by (simp add: E_entry_def translation_affine_def sum_lt4 sum_lt3)

lemma spec_displacement_translation:
  "spec_displacement r xc R (translation_affine d)
     = sqrt (\<Sum>i<3. (\<Sum>j<3. R ! i ! j * d ! j)\<^sup>2)"
  by (simp add: spec_displacement_def rot_term_def trans_term_def E_entry_translation_lin
      E_entry_translation_col)

lemma orthogonal_preserves_norm:
  fixes R :: matrix
  assumes "\<forall>j<3. \<forall>k<3. (\<Sum>i<3. R ! i ! j * R ! i ! k) = (if j = k then 1 else 0)"
  shows "(\<Sum>i<3. (\<Sum>j<3. R ! i ! j * d ! j)\<^sup>2) = (\<Sum>j<3. (d ! j)\<^sup>2)"
proof -
  define G where "G j k = (\<Sum>i<3. R ! i ! j * R ! i ! k)" for j k
  have G: "G 0 0 = 1" "G 1 1 = 1" "G 2 2 = 1" "G 0 1 = 0" "G 0 2 = 0" "G 1 2 = 0"
    using assms by (simp_all add: G_def)
  have "(\<Sum>i<3. (\<Sum>j<3. R ! i ! j * d ! j)\<^sup>2)
      = G 0 0 * (d ! 0)\<^sup>2 + G 1 1 * (d ! 1)\<^sup>2 + G 2 2 * (d ! 2)\<^sup>2
        + 2 * G 0 1 * (d ! 0 * d ! 1) + 2 * G 0 2 * (d ! 0 * d ! 2)
        + 2 * G 1 2 * (d ! 1 * d ! 2)"
    by (simp add: G_def sum_lt3 power2_eq_square algebra_simps)
  also have "\<dots> = (\<Sum>j<3. (d ! j)\<^sup>2)"
    using G by (simp add: sum_lt3)
  finally show ?thesis .
qed

text \<open>
  Claim C4, as stated: for a pure translation by \<open>d\<close> the result is the Euclidean norm of
  \<open>d\<close>. It is not when the reference affine scales: with the reference affine of an image
  of 2 mm voxels and \<open>d = (3, 4, 0)\<close>, of norm 5, the loop body returns 10.
\<close>

theorem pure_translation_counterexample:
  "frame_displacement 70 [[0], [0], [0]]
        [[2, 0, 0, 0], [0, 2, 0, 0], [0, 0, 2, 0], [0, 0, 0, 1]]
        (translation_affine [3, 4, 0]) = Some 10
   \<and> sqrt (3\<^sup>2 + 4\<^sup>2 + 0\<^sup>2) = (5::real)"
  by (simp add: frame_displacement_def mat_defs translation_affine_def)

text \<open>
  Claim C4, amended. For a pure translation by \<open>d\<close> the loop body returns the Euclidean
  norm of \<open>M\<cdot>d\<close>, where \<open>M\<close> is the top-left three by three block of the reference affine;
  the value is the same for every radius \<open>r\<close> (and every centre). It is the norm of \<open>d\<close>
  whenever the columns of \<open>M\<close> are orthonormal, as they are for a reference affine that is
  itself rigid.
\<close>

theorem pure_translation_norm:
  assumes "is_mat 4 4 ref_affine" and "is_mat 3 1 xc"
  shows "frame_displacement r xc ref_affine (translation_affine d)
       = Some (sqrt (\<Sum>i<3. (\<Sum>j<3. ref_affine ! i ! j * d ! j)\<^sup>2))
     \<and> ((\<forall>j<3. \<forall>k<3. (\<Sum>i<3. ref_affine ! i ! j * ref_affine ! i ! k)
                        = (if j = k then 1 else 0))
        \<longrightarrow> frame_displacement r xc ref_affine (translation_affine d)
            = Some (sqrt (\<Sum>j<3. (d ! j)\<^sup>2)))"
  by (simp add: frame_displacement_eq[OF assms(1) is_mat_translation assms(2)]
      spec_displacement_translation orthogonal_preserves_norm)

theorem pure_translation_norm_witness:
  "frame_displacement 70 [[1], [2], [3]]
     [[0, -1, 0, 7], [1, 0, 0, 8], [0, 0, 1, 9], [0, 0, 0, 1]] (translation_affine [3, 4, 0])
     = Some 5"
  using pure_translation_norm[of
      "[[0, -1, 0, 7], [1, 0, 0, 8], [0, 0, 1, 9], [0, 0, 0, 1]]" "[[1], [2], [3]]" 70
      "[3, 4, 0]"]
  by (simp add: is_mat_def sum_lt3 eval_nat_numeral All_less_Suc)

section \<open>Pure rotation about the centre\<close>

lemma trans_term_rotation_about:
  assumes "is_mat 4 4 R" and "is_mat 3 3 Q" and "is_mat 3 1 xc"
  shows "trans_term xc R (rotation_about Q xc) = 0"
proof -
  from assms(1) obtain a0 a1 a2 a3 b0 b1 b2 b3 c0 c1 c2 c3 d0 d1 d2 d3 where
    A: "R = [[a0, a1, a2, a3], [b0, b1, b2, b3], [c0, c1, c2, c3], [d0, d1, d2, d3]]"
    by (rule is_mat_4_4)
  from assms(2) obtain q0 q1 q2 q3 q4 q5 q6 q7 q8 where
    Q: "Q = [[q0, q1, q2], [q3, q4, q5], [q6, q7, q8]]"
    by (rule is_mat_3_3)
  from assms(3) obtain x y z where X: "xc = [[x], [y], [z]]"
    by (rule is_mat_3_1)
  show ?thesis
    unfolding A Q X
    by (simp add: trans_term_def E_entry_def rotation_about_def upt_small sum_lt3 sum_lt4
        algebra_simps)
qed

text \<open>
  Claim C5. For a transform that is a linear map \<open>Q\<close> (in particular a rotation) about
  the centre \<open>xc\<close>, the result is a monotonically increasing function of the radius over
  positive radii: \<open>r1 \<le> r2\<close> gives \<open>d1 \<le> d2\<close>. The result is in fact proportional to the
  radius, so it increases strictly unless it is zero.
\<close>

theorem rotation_monotone_in_radius:
  assumes "is_mat 4 4 ref_affine" and "is_mat 3 3 Q" and "is_mat 3 1 xc"
    and "0 < r1" and "r1 \<le> r2"
  shows "\<exists>d1 d2. frame_displacement r1 xc ref_affine (rotation_about Q xc) = Some d1
      \<and> frame_displacement r2 xc ref_affine (rotation_about Q xc) = Some d2
      \<and> d1 \<le> d2 \<and> d1 * r2 = d2 * r1"
proof -
  let ?T = "rotation_about Q xc"
  let ?k = "sqrt (rot_term ref_affine ?T / 5)"
  have k: "0 \<le> ?k" by (simp add: rot_term_nonneg)
  have d: "frame_displacement r xc ref_affine ?T = Some (r * ?k)" if "0 < r" for r
  proof -
    have "spec_displacement r xc ref_affine ?T = sqrt (r\<^sup>2 * (rot_term ref_affine ?T / 5))"
      by (simp add: spec_displacement_def trans_term_rotation_about[OF assms(1-3)])
    also have "\<dots> = sqrt (r\<^sup>2) * ?k"
      by (rule real_sqrt_mult)
    also have "\<dots> = r * ?k"
      using that by simp
    finally show ?thesis
      by (simp add: frame_displacement_eq[OF assms(1) is_mat_rotation_about[OF assms(2)]
          assms(3)])
  qed
  have "r1 * ?k \<le> r2 * ?k"
    using assms(5) k by (rule mult_right_mono)
  then show ?thesis
    using d[of r1] d[of r2] assms(4,5) by simp
qed

theorem rotation_monotone_in_radius_witness:
  "(0::real) < 1 \<and> (1::real) \<le> 70 \<and>
   (\<exists>d1 d2. frame_displacement 1 [[1], [2], [3]]
        [[3, 0, 0, 0], [0, 1, 0, 0], [0, 0, 1, 0], [0, 0, 0, 1]]
        (rotation_about [[0, -1, 0], [1, 0, 0], [0, 0, 1]] [[1], [2], [3]]) = Some d1
      \<and> frame_displacement 70 [[1], [2], [3]]
        [[3, 0, 0, 0], [0, 1, 0, 0], [0, 0, 1, 0], [0, 0, 0, 1]]
        (rotation_about [[0, -1, 0], [1, 0, 0], [0, 0, 1]] [[1], [2], [3]]) = Some d2
      \<and> d1 \<le> d2 \<and> d1 * 70 = d2 * 1)"
  using rotation_monotone_in_radius[of
      "[[3, 0, 0, 0], [0, 1, 0, 0], [0, 0, 1, 0], [0, 0, 0, 1]]"
      "[[0, -1, 0], [1, 0, 0], [0, 0, 1]]" "[[1], [2], [3]]" 1 70]
  by (simp add: is_mat_def)

section \<open>Flagging subjects by displacement change\<close>

lemma length_diff_row: "length (diff_row a) = length a - 1"
  by (simp add: diff_row_def)

lemma nth_diff_row:
  assumes "j < length a - 1"
  shows "diff_row a ! j = a ! Suc j - a ! j"
  using assms by (simp add: diff_row_def nth_butlast)

lemma sum_list_nth_lessThan: "sum_list xs = (\<Sum>i<length xs. xs ! i)" for xs :: "real list"
  by (simp add: sum_list_sum_nth atLeast0LessThan)

lemma md_diff_rms_nth:
  assumes "i < length M"
  shows "md_diff_rms (np_diff M) ! i
       = sqrt (\<Sum>j<length (M ! i) - 1. (M ! i ! Suc j - M ! i ! j)\<^sup>2)"
proof -
  have "sum_list (map (\<lambda>x. x\<^sup>2) (diff_row (M ! i)))
      = (\<Sum>j<length (M ! i) - 1. (M ! i ! Suc j - M ! i ! j)\<^sup>2)"
    by (simp add: sum_list_nth_lessThan length_diff_row nth_diff_row)
  then show ?thesis
    using assms by (simp add: md_diff_rms_def sum_axis1_def square2_def np_diff_def)
qed

lemma length_md_diff_rms: "length (md_diff_rms (np_diff M)) = length M"
  by (simp add: md_diff_rms_def sum_axis1_def square2_def np_diff_def)

text \<open>
  Claim C6. For every subject \<open>i\<close>, (a) \<open>np.diff\<close> gives the first differences of
  consecutive values of the subject's curve, (b) the summary is the square root of the sum
  of the squares of those differences, and (c) the flagged subjects are exactly those whose
  summary is at least 2.5.
\<close>

theorem flagged_subjects:
  "(\<forall>i<length M. length (np_diff M ! i) = length (M ! i) - 1
       \<and> (\<forall>j<length (M ! i) - 1. np_diff M ! i ! j = M ! i ! Suc j - M ! i ! j))
   \<and> (\<forall>i<length M. md_diff_rms (np_diff M) ! i
         = sqrt (\<Sum>j<length (M ! i) - 1. (M ! i ! Suc j - M ! i ! j)\<^sup>2))
   \<and> set (bad_sub_inds M)
       = {i. i < length M \<and> sqrt (\<Sum>j<length (M ! i) - 1. (M ! i ! Suc j - M ! i ! j)\<^sup>2) \<ge> 2.5}"
proof (intro conjI)
  show "\<forall>i<length M. length (np_diff M ! i) = length (M ! i) - 1
       \<and> (\<forall>j<length (M ! i) - 1. np_diff M ! i ! j = M ! i ! Suc j - M ! i ! j)"
    by (simp add: np_diff_def length_diff_row nth_diff_row)
  show "\<forall>i<length M. md_diff_rms (np_diff M) ! i
         = sqrt (\<Sum>j<length (M ! i) - 1. (M ! i ! Suc j - M ! i ! j)\<^sup>2)"
    by (simp add: md_diff_rms_nth)
  show "set (bad_sub_inds M)
       = {i. i < length M \<and> sqrt (\<Sum>j<length (M ! i) - 1. (M ! i ! Suc j - M ! i ! j)\<^sup>2) \<ge> 2.5}"
    by (auto simp: bad_sub_inds_def nonzero_ge_def max_disp_def length_md_diff_rms md_diff_rms_nth)
qed

theorem flagged_subjects_witness:
  "bad_sub_inds [[1, 1, 1], [0, 3, 7], [0, 1, 1], [2, 0, 3/2::real]] = [1, 3]
   \<and> {i. i < length [[1, 1, 1], [0, 3, 7], [0, 1, 1], [2, 0, 3/2::real]]
          \<and> sqrt (\<Sum>j<length ([[1, 1, 1], [0, 3, 7], [0, 1, 1], [2, 0, 3/2::real]] ! i) - 1.
               ([[1, 1, 1], [0, 3, 7], [0, 1, 1], [2, 0, 3/2::real]] ! i ! Suc j
                 - [[1, 1, 1], [0, 3, 7], [0, 1, 1], [2, 0, 3/2::real]] ! i ! j)\<^sup>2) \<ge> 2.5}
     = {1, 3}"
proof -
  let ?M = "[[1, 1, 1], [0, 3, 7], [0, 1, 1], [2, 0, 3/2::real]]"
  have s: "sqrt (4 + (3/2)\<^sup>2) = (5/2::real)"
    by (rule real_sqrt_unique) (simp_all add: power2_eq_square)
  have b: "bad_sub_inds ?M = [1, 3]"
    by (simp add: bad_sub_inds_def nonzero_ge_def max_disp_def md_diff_rms_def sum_axis1_def
        square2_def np_diff_def diff_row_def upt_rec s)
  have "set (bad_sub_inds ?M)
      = {i. i < length ?M
          \<and> sqrt (\<Sum>j<length (?M ! i) - 1. (?M ! i ! Suc j - ?M ! i ! j)\<^sup>2) \<ge> 2.5}"
    using flagged_subjects[of ?M] by blast
  with b show ?thesis by simp
qed

section \<open>Selecting the worst subject\<close>

lemma filter_upt_Cons:
  assumes "filter P [0..<n] = i # rest"
  shows "i < n \<and> P i \<and> (\<forall>j<i. \<not> P j)"
proof -
  from assms obtain us vs where
    split: "[0..<n] = us @ i # vs" and no: "\<forall>u\<in>set us. \<not> P u" and Pi: "P i"
    by (auto simp: filter_eq_Cons_iff)
  have len: "length us < n"
    using arg_cong[OF split, of length] by simp
  have i: "i = length us"
    using nth_upt[of 0 "length us" n] len by (simp add: split)
  have "\<not> P j" if "j < i" for j
  proof -
    have "us ! j = [0..<n] ! j" using that i by (simp add: split nth_append)
    also have "\<dots> = j" using that i len by simp
    finally have "j \<in> set us" using that i by (metis nth_mem)
    with no show ?thesis by blast
  qed
  with len i Pi show ?thesis by blast
qed

lemma Max_index:
  fixes v :: "real list"
  assumes "v \<noteq> []"
  shows "\<exists>i<length v. v ! i = Max (set v)"
proof -
  have "Max (set v) \<in> set v" using assms by (intro Max_in) simp_all
  then show ?thesis by (auto simp: in_set_conv_nth)
qed

text \<open>
  Claim C10. For a matrix of RMS values with at least one subject and one time point,
  the selected worst subject is the smallest index whose time-averaged RMS equals the
  maximum of the time-averaged RMS over all subjects.
\<close>

theorem worst_subject_first_max:
  assumes "is_mat m n rms" and "0 < m" and "0 < n"
  shows "\<exists>w. worst_subject rms = Some w \<and> w < m
      \<and> avg (rms ! w) = Max (set (map avg rms))
      \<and> (\<forall>i<w. avg (rms ! i) \<noteq> Max (set (map avg rms)))"
proof -
  let ?v = "map avg rms"
  have len: "length rms = m" using assms(1) by (simp add: is_mat_def)
  then have ne: "?v \<noteq> []" using assms(2) by auto
  from Max_index[OF ne] obtain k where k: "k < length ?v" "?v ! k = Max (set ?v)"
    by blast
  then have "k \<in> set (nonzero_eq ?v (Max (set ?v)))"
    by (simp add: nonzero_eq_def)
  then obtain w rest where f: "nonzero_eq ?v (Max (set ?v)) = w # rest"
    by (cases "nonzero_eq ?v (Max (set ?v))") auto
  from filter_upt_Cons[OF f[unfolded nonzero_eq_def]]
  have w: "w < length ?v" "?v ! w = Max (set ?v)" "\<forall>j<w. ?v ! j \<noteq> Max (set ?v)"
    by auto
  have "worst_subject rms = Some w"
    using ne f by (simp add: worst_subject_def mean_axis1_def array_max_def)
  moreover have "\<forall>i<w. avg (rms ! i) \<noteq> Max (set ?v)"
    using w(1,3) by auto
  ultimately show ?thesis
    using w(1,2) len by auto
qed

theorem worst_subject_first_max_witness:
  "worst_subject [[1, 2, 3], [4, 5, 6], [0, 0, 0], [6, 5, 4]] = Some 1"
proof -
  let ?M = "[[1, 2, 3], [4, 5, 6], [0, 0, 0], [6, 5, 4::real]]"
  have "is_mat 4 3 ?M" by (simp add: is_mat_def)
  from worst_subject_first_max[OF this] obtain w where
    w: "worst_subject ?M = Some w" "w < 4" "avg (?M ! w) = Max (set (map avg ?M))"
      "\<forall>i<w. avg (?M ! i) \<noteq> Max (set (map avg ?M))"
    by auto
  have mx: "Max (set (map avg ?M)) = 5" by (simp add: avg_def)
  from w(2) have "w = 0 \<or> w = 1 \<or> w = 2 \<or> w = 3" by auto
  then have "w = 1"
    using w(3,4) unfolding mx by (auto simp: avg_def eval_nat_numeral All_less_Suc)
  with w(1) show ?thesis by simp
qed

section \<open>The RMS curve of a volume\<close>

lemma is_array4_lengths:
  assumes "is_array4 nx ny nz nt arr"
  shows "length arr = nx"
    and "x < nx \<Longrightarrow> length (arr ! x) = ny"
    and "x < nx \<Longrightarrow> y < ny \<Longrightarrow> length (arr ! x ! y) = nz"
    and "x < nx \<Longrightarrow> y < ny \<Longrightarrow> z < nz \<Longrightarrow> length (arr ! x ! y ! z) = nt"
  using assms by (auto simp: is_array4_def list_all_length)

lemma sum_list_map_upt: "sum_list (map f [0..<n]) = (\<Sum>i<n. f i)" for f :: "nat \<Rightarrow> real"
  by (simp add: interv_sum_list_conv_sum_set_nat atLeast0LessThan)

lemma transpose_rect:
  assumes "length xs = n" and "0 < n" and "\<And>i. i < n \<Longrightarrow> length (xs ! i) = m"
  shows "transpose xs = map (\<lambda>j. map (\<lambda>i. xs ! i ! j) [0..<n]) [0..<m]"
  using transpose_rectangle[of xs m] assms by auto

lemma mean0_2_rect:
  assumes "length X = n" and "0 < n" and "\<And>i. i < n \<Longrightarrow> length (X ! i) = m"
  shows "mean0_2 X = map (\<lambda>t. (\<Sum>i<n. X ! i ! t) / real n) [0..<m]"
  by (simp add: mean0_2_def transpose_rect[OF assms] avg_def sum_list_map_upt)

lemma mean0_3_rect:
  assumes "length X = n" and "0 < n" and "\<And>i. i < n \<Longrightarrow> length (X ! i) = m"
    and "\<And>i j. i < n \<Longrightarrow> j < m \<Longrightarrow> length (X ! i ! j) = p"
  shows "mean0_3 X = map (\<lambda>z. map (\<lambda>t. (\<Sum>i<n. X ! i ! z ! t) / real n) [0..<p]) [0..<m]"
proof -
  have "mean0_2 (map (\<lambda>i. X ! i ! j) [0..<n])
      = map (\<lambda>t. (\<Sum>i<n. X ! i ! j ! t) / real n) [0..<p]" if "j < m" for j
    using that assms(2,4) by (subst mean0_2_rect[of _ n p]) (auto intro!: sum.cong)
  then show ?thesis
    by (simp add: mean0_3_def transpose_rect[OF assms(1-3)])
qed

lemma mean0_4_rect:
  assumes "length X = n" and "0 < n" and "\<And>i. i < n \<Longrightarrow> length (X ! i) = m"
    and "\<And>i j. i < n \<Longrightarrow> j < m \<Longrightarrow> length (X ! i ! j) = p"
    and "\<And>i j k. i < n \<Longrightarrow> j < m \<Longrightarrow> k < p \<Longrightarrow> length (X ! i ! j ! k) = q"
  shows "mean0_4 X = map (\<lambda>y. map (\<lambda>z. map (\<lambda>t. (\<Sum>i<n. X ! i ! y ! z ! t) / real n)
            [0..<q]) [0..<p]) [0..<m]"
proof -
  have "mean0_3 (map (\<lambda>i. X ! i ! j) [0..<n])
      = map (\<lambda>z. map (\<lambda>t. (\<Sum>i<n. X ! i ! j ! z ! t) / real n) [0..<q]) [0..<p]"
    if "j < m" for j
    using that assms(2,4,5) by (subst mean0_3_rect[of _ n p q]) (auto intro!: sum.cong)
  then show ?thesis
    by (simp add: mean0_4_def transpose_rect[OF assms(1-3)])
qed


lemma rms_vec_eq:
  assumes wf: "is_array4 nx ny nz nt arr" and pos: "0 < nx" "0 < ny" "0 < nz"
  shows "rms_vec arr = map (rms_formula nx ny nz arr) [0..<nt]"
proof -
  note len = is_array4_lengths[OF wf]
  let ?S = "square4 (broadcast_sub (reshape_last (mean_axis3 arr)) arr)"
  let ?s = "\<lambda>x y z t. (avg (arr ! x ! y ! z) - arr ! x ! y ! z ! t)\<^sup>2"
  have l1: "length ?S = nx"
    by (simp add: square4_def broadcast_sub_def reshape_last_def mean_axis3_def len)
  have l2: "length (?S ! x) = ny" if "x < nx" for x
    using that by (simp add: square4_def broadcast_sub_def reshape_last_def mean_axis3_def len)
  have l3: "length (?S ! x ! y) = nz" if "x < nx" "y < ny" for x y
    using that by (simp add: square4_def broadcast_sub_def reshape_last_def mean_axis3_def len)
  have r4: "?S ! x ! y ! z = map (\<lambda>b. (avg (arr ! x ! y ! z) - b)\<^sup>2) (arr ! x ! y ! z)"
    if "x < nx" "y < ny" "z < nz" for x y z
    using that by (simp add: square4_def broadcast_sub_def reshape_last_def mean_axis3_def len)
  have l4: "length (?S ! x ! y ! z) = nt" if "x < nx" "y < ny" "z < nz" for x y z
    using that by (simp add: r4 len)
  have e: "?S ! x ! y ! z ! t = ?s x y z t"
    if "x < nx" "y < ny" "z < nz" "t < nt" for x y z t
    using that by (simp add: r4 len)
  have m4: "mean0_4 ?S = map (\<lambda>y. map (\<lambda>z. map (\<lambda>t. (\<Sum>x<nx. ?s x y z t) / real nx)
      [0..<nt]) [0..<nz]) [0..<ny]"
    by (subst mean0_4_rect[of _ nx ny nz nt]) (auto simp: l1 l2 l3 l4 e pos intro!: sum.cong)
  have m3: "mean0_3 (mean0_4 ?S)
      = map (\<lambda>z. map (\<lambda>t. (\<Sum>y<ny. (\<Sum>x<nx. ?s x y z t) / real nx) / real ny)
          [0..<nt]) [0..<nz]"
    unfolding m4
    by (subst mean0_3_rect[of _ ny nz nt]) (auto simp: pos intro!: sum.cong)
  have m2: "mean0_2 (mean0_3 (mean0_4 ?S))
      = map (\<lambda>t. (\<Sum>z<nz. (\<Sum>y<ny. (\<Sum>x<nx. ?s x y z t) / real nx) / real ny) / real nz)
          [0..<nt]"
    unfolding m3
    by (subst mean0_2_rect[of _ nz nt]) (auto simp: pos intro!: sum.cong)
  have "(\<Sum>z<nz. (\<Sum>y<ny. (\<Sum>x<nx. ?s x y z t) / real nx) / real ny) / real nz
      = (\<Sum>x<nx. \<Sum>y<ny. \<Sum>z<nz. ?s x y z t) / real (nx * ny * nz)" for t
  proof -
    have "(\<Sum>z<nz. (\<Sum>y<ny. (\<Sum>x<nx. ?s x y z t) / real nx) / real ny) / real nz
        = (\<Sum>z<nz. \<Sum>y<ny. \<Sum>x<nx. ?s x y z t) / real (nx * ny * nz)"
      by (simp add: sum_divide_distrib[symmetric] mult.commute mult.left_commute)
    also have "(\<Sum>z<nz. \<Sum>y<ny. \<Sum>x<nx. ?s x y z t) = (\<Sum>z<nz. \<Sum>x<nx. \<Sum>y<ny. ?s x y z t)"
      by (intro sum.cong refl sum.swap)
    also have "\<dots> = (\<Sum>x<nx. \<Sum>z<nz. \<Sum>y<ny. ?s x y z t)"
      by (rule sum.swap)
    also have "\<dots> = (\<Sum>x<nx. \<Sum>y<ny. \<Sum>z<nz. ?s x y z t)"
      by (intro sum.cong refl sum.swap)
    finally show ?thesis .
  qed
  then show ?thesis
    by (simp add: rms_vec_def m2 rms_formula_def)
qed

section \<open>Truncation to the common number of frames\<close>

lemma length_shape4: "length (shape4 a) = 4"
  by (simp add: shape4_def)

lemma num_timepoints_dims_all:
  assumes "arrs \<noteq> []"
  shows "num_timepoints (dims_all arrs) = Some (Min (set (map (\<lambda>a. shape4 a ! 3) arrs)))"
proof -
  let ?D = "map shape4 arrs"
  have n: "0 < length ?D" using assms by simp
  have tr: "transpose ?D = map (\<lambda>j. map (\<lambda>i. ?D ! i ! j) [0..<length ?D]) [0..<4]"
    by (rule transpose_rect[OF refl n]) (simp add: length_shape4)
  have col: "map (\<lambda>i. ?D ! i ! 3) [0..<length ?D] = map (\<lambda>a. shape4 a ! 3) arrs"
    by (rule nth_equalityI) simp_all
  show ?thesis
    using assms col by (simp add: num_timepoints_def min_axis0_def dims_all_def tr)
qed

lemma length_rms_vec:
  assumes "proper4 a"
  shows "length (rms_vec a) = shape4 a ! 3"
proof -
  from assms have wf: "is_array4 (shape4 a ! 0) (shape4 a ! 1) (shape4 a ! 2) (shape4 a ! 3) a"
    and pos: "0 < shape4 a ! 0" "0 < shape4 a ! 1" "0 < shape4 a ! 2"
    by (simp_all add: proper4_def)
  show ?thesis
    by (simp add: rms_vec_eq[OF wf pos])
qed

lemma rms_all_loop_eq:
  assumes "\<forall>a\<in>set arrs. n \<le> length (rms_vec a)"
  shows "rms_all_loop n arrs = Some (map (\<lambda>a. take n (rms_vec a)) arrs)"
  using assms by (induction arrs) (simp_all add: store_row_def min_def)

text \<open>
  Claim C7. The common number of frames is the minimum of the fourth extents of the
  subjects' volumes; for frame counts 170, 164 and 168 it is 164, whatever the spatial
  extents. Every row of \<open>rms_all\<close> is the subject's RMS curve cut to that length, and has
  exactly that length.
\<close>

theorem common_length_is_minimum:
  assumes "arrs \<noteq> []" and "list_all proper4 arrs"
  shows "num_timepoints [[a, b, c, 170], [d, e, f, 164], [g, h, i, 168]] = Some 164
     \<and> (\<exists>n rows. num_timepoints (dims_all arrs) = Some n
        \<and> n = Min (set (map (\<lambda>a. shape4 a ! 3) arrs))
        \<and> rms_all arrs = Some rows
        \<and> rows = map (\<lambda>a. take n (rms_vec a)) arrs
        \<and> list_all (\<lambda>row. length row = n) rows)"
proof
  show "num_timepoints [[a, b, c, 170], [d, e, f, 164], [g, h, i, 168]] = Some 164"
    by (simp add: num_timepoints_def min_axis0_def)
next
  define n where "n = Min (set (map (\<lambda>a. shape4 a ! 3) arrs))"
  have nt: "num_timepoints (dims_all arrs) = Some n"
    unfolding n_def by (rule num_timepoints_dims_all[OF assms(1)])
  have le: "n \<le> length (rms_vec a)" if "a \<in> set arrs" for a
  proof -
    from that assms(2) have "proper4 a" by (simp add: list_all_iff)
    then have "length (rms_vec a) = shape4 a ! 3" by (rule length_rms_vec)
    moreover have "n \<le> shape4 a ! 3" unfolding n_def using that by (intro Min_le) auto
    ultimately show ?thesis by simp
  qed
  then have loop: "rms_all_loop n arrs = Some (map (\<lambda>a. take n (rms_vec a)) arrs)"
    by (intro rms_all_loop_eq) blast
  have all: "list_all (\<lambda>row. length row = n) (map (\<lambda>a. take n (rms_vec a)) arrs)"
    using le by (simp add: list_all_iff min_absorb2)
  have "rms_all arrs = Some (map (\<lambda>a. take n (rms_vec a)) arrs)"
    by (simp add: rms_all_def nt loop)
  with nt all show "\<exists>n rows. num_timepoints (dims_all arrs) = Some n
        \<and> n = Min (set (map (\<lambda>a. shape4 a ! 3) arrs))
        \<and> rms_all arrs = Some rows
        \<and> rows = map (\<lambda>a. take n (rms_vec a)) arrs
        \<and> list_all (\<lambda>row. length row = n) rows"
    unfolding n_def by blast
qed

lemma rms_vec_ex1: "rms_vec [[[[0, 0, 3]]]] = [1, 1, 2]"
  by (simp add: rms_vec_def reshape_last_def mean_axis3_def broadcast_sub_def square4_def
      mean0_4_def mean0_3_def mean0_2_def avg_def)

lemma rms_vec_ex2: "rms_vec [[[[0, 4]]]] = [2, 2]"
  by (simp add: rms_vec_def reshape_last_def mean_axis3_def broadcast_sub_def square4_def
      mean0_4_def mean0_3_def mean0_2_def avg_def)

theorem common_length_is_minimum_witness:
  "num_timepoints (dims_all [[[[[0, 0, 3]]]], [[[[0, 4]]]]]) = Some 2
   \<and> rms_all [[[[[0, 0, 3]]]], [[[[0, 4]]]]] = Some [[1, 1], [2, 2]]"
proof -
  let ?arrs = "[[[[[0, 0, 3]]]], [[[[0, 4::real]]]]]"
  have p: "list_all proper4 ?arrs"
    by (simp add: proper4_def shape4_def is_array4_def)
  have ne: "?arrs \<noteq> []" by simp
  have m: "Min (set (map (\<lambda>a. shape4 a ! 3) ?arrs)) = 2"
    by (simp add: shape4_def)
  from common_length_is_minimum[OF ne p] obtain n rows where
    "num_timepoints (dims_all ?arrs) = Some n"
    "n = Min (set (map (\<lambda>a. shape4 a ! 3) ?arrs))"
    "rms_all ?arrs = Some rows"
    "rows = map (\<lambda>a. take n (rms_vec a)) ?arrs"
    by blast
  then show ?thesis
    unfolding m by (simp add: rms_vec_ex1 rms_vec_ex2)
qed

end
